theory Spec2Isabelle
  imports Main "HOL-Library.Sublist"
begin

section \<open>JavaScript strings\<close>

text \<open>
  A JavaScript string is modelled as a \<^typ>\<open>string\<close>, one \<^typ>\<open>char\<close> per code
  unit; the model covers the code units below 256 (Latin-1). The helpers below are the
  string methods and regular-expression classes the adapter uses.
\<close>

definition is_digit :: "char \<Rightarrow> bool" where
  \<comment> \<open>the class \<open>\d\<close>: the ten ASCII digits\<close>
  "is_digit c = (c \<in> set ''0123456789'')"

definition is_js_space :: "char \<Rightarrow> bool" where
  \<comment> \<open>what \<open>String.prototype.trim\<close> removes, below code unit 256: TAB, LF, VT, FF, CR,
      SPACE and NBSP\<close>
  "is_js_space c = (c \<in> set [CHR 0x09, CHR 0x0A, CHR 0x0B, CHR 0x0C, CHR 0x0D, CHR 0x20, CHR 0xA0])"

definition js_trim :: "string \<Rightarrow> string" where
  "js_trim s = rev (dropWhile is_js_space (rev (dropWhile is_js_space s)))"

definition ascii_case_table :: "(char \<times> char) list" where
  "ascii_case_table = zip ''ABCDEFGHIJKLMNOPQRSTUVWXYZ'' ''abcdefghijklmnopqrstuvwxyz''"

definition to_lower :: "char \<Rightarrow> char" where
  \<comment> \<open>case folding of the \<open>i\<close> flag on ASCII letters; no other code unit below 256 folds
      onto an ASCII letter\<close>
  "to_lower c = (case map_of ascii_case_table c of Some d \<Rightarrow> d | None \<Rightarrow> c)"

definition starts_with_ci :: "string \<Rightarrow> string \<Rightarrow> bool" where
  \<comment> \<open>\<open>/^p/i\<close> tested on \<open>s\<close>, for a lower-case literal \<open>p\<close>\<close>
  "starts_with_ci p s = (map to_lower (take (length p) s) = p)"

definition digits_only :: "string \<Rightarrow> string" where
  \<comment> \<open>\<open>s.replace(/\D/g, "")\<close>\<close>
  "digits_only s = filter is_digit s"

definition match_individual :: "string \<Rightarrow> string option" where
  \<comment> \<open>\<open>s.match(/^(\d+)@c\.us$/i)\<close>: the captured digit run, or \<open>None\<close> for no match\<close>
  "match_individual s =
     (let ds = takeWhile is_digit s; rest = dropWhile is_digit s
      in if ds \<noteq> [] \<and> map to_lower rest = ''@c.us'' then Some ds else None)"

section \<open>Target normalizer (normalize.ts)\<close>

definition e164ToChatId :: "string \<Rightarrow> string" where
  "e164ToChatId e164 =
     (let digits = digits_only e164
      in if digits = [] then e164 else digits @ ''@c.us'')"

definition chatIdToE164 :: "string \<Rightarrow> string" where
  "chatIdToE164 chatId =
     (case match_individual chatId of
        Some m \<Rightarrow> ''+'' @ m
      | None \<Rightarrow>
          if prefix ''+'' chatId then chatId
          else let digits = digits_only chatId
               in if digits \<noteq> [] then ''+'' @ digits else chatId)"

definition isGroupChatId :: "string \<Rightarrow> bool" where
  "isGroupChatId chatId = (suffix ''@g.us'' chatId \<or> suffix ''@newsletter'' chatId)"

definition isDirectChatId :: "string \<Rightarrow> bool" where
  "isDirectChatId chatId = suffix ''@c.us'' chatId"

definition strip_waha_prefix :: "string \<Rightarrow> string" where
  \<comment> \<open>\<open>s.replace(/^waha:(?:user:|group:)?/i, "")\<close>\<close>
  "strip_waha_prefix s =
     (if starts_with_ci ''waha:'' s then
        (let r = drop 5 s
         in if starts_with_ci ''user:'' r then drop 5 r
            else if starts_with_ci ''group:'' r then drop 6 r
            else r)
      else s)"

definition normalize_stripped :: "string \<Rightarrow> string" where
  \<comment> \<open>the branches of \<open>normalizeWahaTarget\<close> below its two \<open>const\<close> bindings, named so
      that proofs can speak about them\<close>
  "normalize_stripped stripped =
     (if suffix ''@c.us'' stripped \<or> suffix ''@g.us'' stripped \<or> suffix ''@newsletter'' stripped
      then stripped
      else if prefix ''+'' stripped then e164ToChatId stripped
      else let digits = digits_only stripped
           in if digits \<noteq> [] \<and> digits = stripped then digits @ ''@c.us'' else stripped)"

definition starts_with_space :: "string \<Rightarrow> bool" where
  "starts_with_space s = (case s of [] \<Rightarrow> False | c # _ \<Rightarrow> is_js_space c)"

definition normalizeWahaTarget :: "string \<Rightarrow> string" where
  "normalizeWahaTarget target =
     (let trimmed = js_trim target;
          stripped = strip_waha_prefix trimmed
      in if suffix ''@c.us'' stripped \<or> suffix ''@g.us'' stripped \<or> suffix ''@newsletter'' stripped
         then stripped
         else if prefix ''+'' stripped then e164ToChatId stripped
         else let digits = digits_only stripped
              in if digits \<noteq> [] \<and> digits = stripped then digits @ ''@c.us'' else stripped)"

definition normalizeWahaAllowEntry :: "string \<Rightarrow> string" where
  "normalizeWahaAllowEntry entry =
     (let trimmed = js_trim entry;
          stripped = strip_waha_prefix trimmed
      in case match_individual stripped of
           Some m \<Rightarrow> ''+'' @ m
         | None \<Rightarrow>
             if prefix ''+'' stripped then stripped
             else let digits = digits_only stripped
                  in if digits \<noteq> [] \<and> digits = stripped then ''+'' @ digits else stripped)"


section \<open>Configuration and account records (types.ts)\<close>

text \<open>
  An optional property is an \<^typ>\<open>'a option\<close>, \<open>None\<close> standing for \<open>undefined\<close>. JavaScript
  numbers are an opaque type \<open>'n\<close>. \<open>session\<close> of a named account is optional here, as
  \<open>isWahaAccountConfigured\<close> reads it with \<open>?.\<close>. The \<open>accounts\<close> object is the list of its
  own properties in the order of \<open>Object.keys\<close>, each bound to an account object; it is a
  plain object, so a property read on it also finds the members of \<open>Object.prototype\<close>.
\<close>

datatype dm_policy = DmOpen | DmAllowlist | DmPairing | DmDisabled

datatype group_policy = GroupOpen | GroupAllowlist | GroupDisabled

datatype 'n allow_entry = EntryStr string | EntryNum 'n

record 'n WahaAccountConfig =
  ac_enabled :: "bool option"
  ac_session :: "string option"
  ac_name :: "string option"
  ac_allowFrom :: "'n allow_entry list option"
  ac_groupAllowFrom :: "'n allow_entry list option"
  ac_dmPolicy :: "dm_policy option"
  ac_groupPolicy :: "group_policy option"
  ac_mediaMaxMb :: "'n option"
  ac_webhookPath :: "string option"

record 'n WahaConfig =
  wc_enabled :: "bool option"
  wc_url :: "string option"
  wc_apiKey :: "string option"
  wc_session :: "string option"
  wc_name :: "string option"
  wc_webhookPath :: "string option"
  wc_hmacKey :: "string option"
  wc_allowFrom :: "'n allow_entry list option"
  wc_groupAllowFrom :: "'n allow_entry list option"
  wc_dmPolicy :: "dm_policy option"
  wc_groupPolicy :: "group_policy option"
  wc_mediaMaxMb :: "'n option"
  wc_accounts :: "(string \<times> 'n WahaAccountConfig) list option"

record 'n ResolvedWahaAccount =
  ra_accountId :: string
  ra_name :: "string option"
  ra_enabled :: bool
  ra_url :: string
  ra_apiKey :: string
  ra_session :: "string option"
  ra_hmacKey :: "string option"
  ra_config :: "'n WahaConfig"

record 'n Channels =
  ch_waha :: "'n WahaConfig option"

record 'n OpenClawConfig =
  cfg_channels :: "'n Channels option"

definition empty_WahaConfig :: "'n WahaConfig" where
  \<comment> \<open>the object literal \<open>{}\<close>\<close>
  "empty_WahaConfig =
     \<lparr>wc_enabled = None, wc_url = None, wc_apiKey = None, wc_session = None, wc_name = None,
      wc_webhookPath = None, wc_hmacKey = None, wc_allowFrom = None, wc_groupAllowFrom = None,
      wc_dmPolicy = None, wc_groupPolicy = None, wc_mediaMaxMb = None, wc_accounts = None\<rparr>"

definition truthy_str :: "string option \<Rightarrow> bool" where
  \<comment> \<open>truthiness of an optional string: defined and not empty\<close>
  "truthy_str v = (case v of None \<Rightarrow> False | Some s \<Rightarrow> s \<noteq> [])"

definition or_else :: "'a option \<Rightarrow> 'a \<Rightarrow> 'a" where
  \<comment> \<open>\<open>v ?? d\<close>\<close>
  "or_else v d = (case v of None \<Rightarrow> d | Some x \<Rightarrow> x)"

definition or_opt :: "'a option \<Rightarrow> 'a option \<Rightarrow> 'a option" where
  \<comment> \<open>\<open>v ?? w\<close> where \<open>w\<close> may be undefined too; also what spreading two objects leaves in
      a property both may carry, the later object first\<close>
  "or_opt v w = (case v of None \<Rightarrow> w | Some x \<Rightarrow> Some x)"

section \<open>Account resolver (accounts.ts)\<close>

text \<open>
  \<open>DEFAULT_ACCOUNT_ID\<close> is imported from the plugin SDK; every function that reads it takes
  it as its first argument \<open>D\<close>.
\<close>

definition normalizeAccountId :: "string \<Rightarrow> string option \<Rightarrow> string" where
  "normalizeAccountId D accountId =
     (case accountId of
        None \<Rightarrow> D
      | Some a \<Rightarrow> if a = [] \<or> a = ''default'' \<or> a = D then D else a)"

definition getWahaConfig :: "'n OpenClawConfig \<Rightarrow> 'n WahaConfig option" where
  "getWahaConfig cfg = (case cfg_channels cfg of None \<Rightarrow> None | Some ch \<Rightarrow> ch_waha ch)"

definition default_credentialed :: "'n WahaConfig \<Rightarrow> bool" where
  \<comment> \<open>\<open>wahaConfig.url && wahaConfig.apiKey && wahaConfig.session\<close>\<close>
  "default_credentialed wahaConfig =
     (truthy_str (wc_url wahaConfig) \<and> truthy_str (wc_apiKey wahaConfig)
      \<and> truthy_str (wc_session wahaConfig))"

definition object_keys :: "(string \<times> 'a) list \<Rightarrow> string list" where
  "object_keys obj = map fst obj"

fun push_new_ids :: "string list \<Rightarrow> string list \<Rightarrow> string list" where
  \<comment> \<open>the \<open>for\<close> loop of \<open>listWahaAccountIds\<close>: keys yet to visit, the array built so far\<close>
  "push_new_ids [] accountIds = accountIds"
| "push_new_ids (accountId # rest) accountIds =
     push_new_ids rest (if accountId \<in> set accountIds then accountIds else accountIds @ [accountId])"

definition listWahaAccountIds :: "string \<Rightarrow> 'n OpenClawConfig \<Rightarrow> string list" where
  "listWahaAccountIds D cfg =
     (case getWahaConfig cfg of
        None \<Rightarrow> []
      | Some wahaConfig \<Rightarrow>
          (let accountIds = (if default_credentialed wahaConfig then [D] else [])
           in case wc_accounts wahaConfig of
                None \<Rightarrow> accountIds
              | Some accounts \<Rightarrow> push_new_ids (object_keys accounts) accountIds))"

definition resolveDefaultWahaAccountId :: "string \<Rightarrow> 'n OpenClawConfig \<Rightarrow> string" where
  "resolveDefaultWahaAccountId D cfg =
     (case getWahaConfig cfg of
        None \<Rightarrow> D
      | Some wahaConfig \<Rightarrow>
          if default_credentialed wahaConfig then D
          else (case wc_accounts wahaConfig of
                  None \<Rightarrow> D
                | Some accounts \<Rightarrow>
                    (case object_keys accounts of
                       [] \<Rightarrow> D
                     | firstAccountId # _ \<Rightarrow> if firstAccountId \<noteq> [] then firstAccountId else D)))"

definition named_account_keys :: "'n WahaConfig \<Rightarrow> string list" where
  \<comment> \<open>the keys of \<open>wahaConfig.accounts\<close>, none when the property is absent\<close>
  "named_account_keys wahaConfig =
     (case wc_accounts wahaConfig of None \<Rightarrow> [] | Some accounts \<Rightarrow> object_keys accounts)"

definition object_prototype_members :: "(string \<times> string option) list" where
  \<comment> \<open>the properties every plain object inherits from \<open>Object.prototype\<close>, each with the
      \<open>name\<close> property of its value: a function carries its name; \<open>__proto__\<close> yields
      \<open>Object.prototype\<close> itself, which has none\<close>
  "object_prototype_members =
     [(''constructor'', Some ''Object''),
      (''__defineGetter__'', Some ''__defineGetter__''),
      (''__defineSetter__'', Some ''__defineSetter__''),
      (''hasOwnProperty'', Some ''hasOwnProperty''),
      (''__lookupGetter__'', Some ''__lookupGetter__''),
      (''__lookupSetter__'', Some ''__lookupSetter__''),
      (''isPrototypeOf'', Some ''isPrototypeOf''),
      (''propertyIsEnumerable'', Some ''propertyIsEnumerable''),
      (''toString'', Some ''toString''),
      (''valueOf'', Some ''valueOf''),
      (''__proto__'', None),
      (''toLocaleString'', Some ''toLocaleString'')]"

datatype 'n account_value =
    OwnAccount "'n WahaAccountConfig"
  | PrototypeMember "string option"

definition lookup_account :: "'n WahaConfig \<Rightarrow> string \<Rightarrow> 'n account_value option" where
  \<comment> \<open>\<open>wahaConfig.accounts?.[id]\<close>: an own property of the accounts object, else what the
      object inherits under that name, else \<open>undefined\<close>\<close>
  "lookup_account wahaConfig accountId =
     (case wc_accounts wahaConfig of
        None \<Rightarrow> None
      | Some accounts \<Rightarrow>
          (case map_of accounts accountId of
             Some accountConfig \<Rightarrow> Some (OwnAccount accountConfig)
           | None \<Rightarrow>
               (case map_of object_prototype_members accountId of
                  Some name \<Rightarrow> Some (PrototypeMember name)
                | None \<Rightarrow> None)))"

definition no_properties :: "'n WahaAccountConfig" where
  "no_properties =
     \<lparr>ac_enabled = None, ac_session = None, ac_name = None, ac_allowFrom = None,
      ac_groupAllowFrom = None, ac_dmPolicy = None, ac_groupPolicy = None, ac_mediaMaxMb = None,
      ac_webhookPath = None\<rparr>"

definition read_properties :: "'n account_value \<Rightarrow> 'n WahaAccountConfig" where
  \<comment> \<open>what \<open>accountConfig.p\<close> reads: of an inherited member only \<open>name\<close> is defined\<close>
  "read_properties v =
     (case v of
        OwnAccount accountConfig \<Rightarrow> accountConfig
      | PrototypeMember name \<Rightarrow> no_properties\<lparr>ac_name := name\<rparr>)"

definition spread_properties :: "'n account_value \<Rightarrow> 'n WahaAccountConfig" where
  \<comment> \<open>what \<open>...accountConfig\<close> copies, the own enumerable properties: an inherited member
      has none\<close>
  "spread_properties v =
     (case v of
        OwnAccount accountConfig \<Rightarrow> accountConfig
      | PrototypeMember name \<Rightarrow> no_properties)"

definition session_only :: "string \<Rightarrow> 'n WahaAccountConfig" where
  \<comment> \<open>the account object \<open>{ session: s }\<close>\<close>
  "session_only s =
     \<lparr>ac_enabled = None, ac_session = Some s, ac_name = None, ac_allowFrom = None,
      ac_groupAllowFrom = None, ac_dmPolicy = None, ac_groupPolicy = None, ac_mediaMaxMb = None,
      ac_webhookPath = None\<rparr>"

definition config_of :: "'n WahaConfig \<Rightarrow> 'n OpenClawConfig" where
  \<comment> \<open>the configuration tree \<open>{ channels: { waha: c } }\<close>\<close>
  "config_of c = \<lparr>cfg_channels = Some \<lparr>ch_waha = Some c\<rparr>\<rparr>"

definition merge_config :: "'n WahaConfig \<Rightarrow> 'n account_value \<Rightarrow> 'n WahaConfig" where
  \<comment> \<open>the \<open>config\<close> object of a named account: both spreads, then the four explicit
      properties\<close>
  "merge_config wahaConfig accountConfig =
     (let spread = spread_properties accountConfig;
          named = read_properties accountConfig
      in wahaConfig
           \<lparr>wc_enabled := or_opt (ac_enabled spread) (wc_enabled wahaConfig),
            wc_session := or_opt (ac_session spread) (wc_session wahaConfig),
            wc_name := or_opt (ac_name spread) (wc_name wahaConfig),
            wc_mediaMaxMb := or_opt (ac_mediaMaxMb spread) (wc_mediaMaxMb wahaConfig),
            wc_webhookPath := or_opt (ac_webhookPath spread) (wc_webhookPath wahaConfig),
            wc_allowFrom := or_opt (ac_allowFrom named) (wc_allowFrom wahaConfig),
            wc_groupAllowFrom := or_opt (ac_groupAllowFrom named) (wc_groupAllowFrom wahaConfig),
            wc_dmPolicy := or_opt (ac_dmPolicy named) (wc_dmPolicy wahaConfig),
            wc_groupPolicy := or_opt (ac_groupPolicy named) (wc_groupPolicy wahaConfig)\<rparr>)"

definition resolveWahaAccount ::
  "string \<Rightarrow> 'n OpenClawConfig \<Rightarrow> string option \<Rightarrow> 'n ResolvedWahaAccount" where
  "resolveWahaAccount D cfg accountId =
     (let normalizedId = normalizeAccountId D accountId;
          wahaConfig = or_else (getWahaConfig cfg) empty_WahaConfig;
          accountConfig = lookup_account wahaConfig normalizedId
      in case (if normalizedId \<noteq> D then accountConfig else None) of
           Some found \<Rightarrow>
             (let named = read_properties found
              in \<lparr>ra_accountId = normalizedId,
                  ra_name = Some (or_else (ac_name named) normalizedId),
                  ra_enabled = or_else (ac_enabled named) True,
                  ra_url = or_else (wc_url wahaConfig) [],
                  ra_apiKey = or_else (wc_apiKey wahaConfig) [],
                  ra_session = ac_session named,
                  ra_hmacKey = wc_hmacKey wahaConfig,
                  ra_config = merge_config wahaConfig found\<rparr>)
         | None \<Rightarrow>
             \<lparr>ra_accountId = D,
              ra_name = wc_name wahaConfig,
              ra_enabled = or_else (wc_enabled wahaConfig) True,
              ra_url = or_else (wc_url wahaConfig) [],
              ra_apiKey = or_else (wc_apiKey wahaConfig) [],
              ra_session = Some (or_else (wc_session wahaConfig) ''default''),
              ra_hmacKey = wc_hmacKey wahaConfig,
              ra_config = wahaConfig\<rparr>)"

definition trimmed_truthy :: "string \<Rightarrow> bool" where
  \<comment> \<open>truthiness of \<open>s.trim()\<close>\<close>
  "trimmed_truthy s = (js_trim s \<noteq> [])"

definition isWahaAccountConfigured :: "'n ResolvedWahaAccount \<Rightarrow> bool" where
  "isWahaAccountConfigured account =
     (trimmed_truthy (ra_url account) \<and> trimmed_truthy (ra_apiKey account)
      \<and> (case ra_session account of None \<Rightarrow> False | Some s \<Rightarrow> trimmed_truthy s))"


section \<open>Webhook ingestion endpoint (webhook-handler.ts)\<close>

text \<open>
  The handler is a function from the request to the sequence of effects it performs, in
  program order, and to how its promise ends. Node's \<open>crypto.createHmac\<close>, \<open>JSON.parse\<close>
  and the three callbacks are arguments. A parsed JSON value is a \<open>json\<close>; a JavaScript value
  that may be \<open>undefined\<close> is a \<open>json option\<close>. A number carries its numeric value, so
  both zeros of the double format are \<open>0\<close>. The plugin runtime is taken to be registered
  (\<open>getWahaRuntime\<close> returns), here and in the sections below.
\<close>

datatype 'n json =
    JNull
  | JBool bool
  | JNum 'n
  | JStr string
  | JArr "'n json list"
  | JObj "(string \<times> 'n json) list"

fun js_truthy :: "('n::zero) json option \<Rightarrow> bool" where
  "js_truthy None = False"
| "js_truthy (Some JNull) = False"
| "js_truthy (Some (JBool b)) = b"
| "js_truthy (Some (JNum n)) = (n \<noteq> 0)"
| "js_truthy (Some (JStr s)) = (s \<noteq> [])"
| "js_truthy (Some (JArr _)) = True"
| "js_truthy (Some (JObj _)) = True"

fun get_prop :: "'n json \<Rightarrow> string \<Rightarrow> 'n json option" where
  \<comment> \<open>\<open>v.k\<close> for a value other than \<open>null\<close> and a name no prototype defines\<close>
  "get_prop (JObj kvs) k = map_of kvs k"
| "get_prop _ k = None"

datatype header_value = HStr string | HArr "string list"

record http_request =
  req_method :: string
  req_headers :: "string \<rightharpoonup> header_value"
  req_body :: "string option"  \<comment> \<open>\<open>None\<close>: the request stream emits \<open>error\<close>\<close>

datatype response_body = PlainText string | JsonObject "(string \<times> string) list"

record http_response =
  res_status :: nat
  res_headers :: "(string \<times> string) list"
  res_body :: response_body

datatype js_error = TypeError | RangeError | SyntaxError | StreamError | CallbackError

datatype 'n log_msg =
    LogMissingHeader
  | LogValidationFailed
  | LogReceived "'n json option" "'n json option"
  | LogIgnored "'n json option"

datatype 'n effect =
    LogMsg "'n log_msg"
  | Respond http_response
  | ParseJson string
  | CallOnMessage "'n json" "'n json option"
  | CallOnReaction "'n json option" "'n json option"
  | CallOnSessionStatus "'n json option" "'n json option"
  | ErrorLogHandlerFailed
  | ErrorLogWebhook

datatype settle = Fulfilled | Rejected | Pending

datatype completion = Returned | Threw js_error | Hung

definition utf8_bytes :: "string \<Rightarrow> nat list" where
  \<comment> \<open>\<open>Buffer.from(s)\<close>, for code units below 256\<close>
  "utf8_bytes s =
     concat (map (\<lambda>c. let n = (of_char c :: nat)
                       in if n < 128 then [n] else [192 + n div 64, 128 + n mod 64]) s)"

definition timingSafeEqual :: "nat list \<Rightarrow> nat list \<Rightarrow> js_error + bool" where
  \<comment> \<open>\<open>crypto.timingSafeEqual\<close> throws on buffers of different byte length\<close>
  "timingSafeEqual a b = (if length a \<noteq> length b then Inl RangeError else Inr (a = b))"

definition validateWahaHmac ::
  "(string \<Rightarrow> string \<Rightarrow> string \<Rightarrow> string option) \<Rightarrow>
   string \<Rightarrow> string \<Rightarrow> string \<Rightarrow> header_value \<Rightarrow> js_error + bool" where
  \<comment> \<open>\<open>hmac_hex algorithm key body\<close> is the hex digest, \<open>None\<close> when \<open>createHmac\<close> throws on
      the algorithm name; a header that is an array is no algorithm name at all\<close>
  "validateWahaHmac hmac_hex rawBody signature hmacKey algorithm =
     (case algorithm of
        HArr _ \<Rightarrow> Inl TypeError
      | HStr alg \<Rightarrow>
          (case hmac_hex alg hmacKey rawBody of
             None \<Rightarrow> Inl TypeError
           | Some computed \<Rightarrow> timingSafeEqual (utf8_bytes computed) (utf8_bytes signature)))"

definition json_response :: "nat \<Rightarrow> (string \<times> string) list \<Rightarrow> http_response" where
  "json_response code obj =
     \<lparr>res_status = code, res_headers = [(''Content-Type'', ''application/json'')],
      res_body = JsonObject obj\<rparr>"

datatype hmac_check = HmacPassed | HmacMissing | HmacInvalid | HmacThrew js_error

definition check_hmac ::
  "(string \<Rightarrow> string \<Rightarrow> string \<Rightarrow> string option) \<Rightarrow>
   'c ResolvedWahaAccount \<Rightarrow> http_request \<Rightarrow> string \<Rightarrow> hmac_check" where
  \<comment> \<open>the block under \<open>if (account.hmacKey)\<close>\<close>
  "check_hmac hmac_hex account req rawBody =
     (case ra_hmacKey account of
        None \<Rightarrow> HmacPassed
      | Some hmacKey \<Rightarrow>
          if hmacKey = [] then HmacPassed
          else
            (let signature = req_headers req ''x-webhook-hmac'';
                 algorithm = or_else (req_headers req ''x-webhook-hmac-algorithm'') (HStr ''sha512'')
             in case signature of
                  None \<Rightarrow> HmacMissing
                | Some (HArr _) \<Rightarrow> HmacMissing
                | Some (HStr sig) \<Rightarrow>
                    if sig = [] then HmacMissing
                    else (case validateWahaHmac hmac_hex rawBody sig hmacKey algorithm of
                            Inl e \<Rightarrow> HmacThrew e
                          | Inr ok \<Rightarrow> if ok then HmacPassed else HmacInvalid)))"

fun to_string_throws :: "'n json \<Rightarrow> bool" where
  \<comment> \<open>whether \<open>`${v}`\<close> throws a TypeError: a parsed object with an own \<open>toString\<close>
      property has a \<open>toString\<close> that is no function and a \<open>valueOf\<close> that yields no
      primitive; an array is joined, each element other than \<open>null\<close> converted in turn\<close>
  "to_string_throws (JObj kvs) = (map_of kvs ''toString'' \<noteq> None)"
| "to_string_throws (JArr vs) = list_ex to_string_throws vs"
| "to_string_throws _ = False"

definition template_throws :: "'n json option \<Rightarrow> bool" where
  "template_throws v = (case v of None \<Rightarrow> False | Some j \<Rightarrow> to_string_throws j)"

definition dispatch_event ::
  "('n json \<Rightarrow> 'n json option \<Rightarrow> settle) \<Rightarrow>
   ('n json option \<Rightarrow> 'n json option \<Rightarrow> bool) option \<Rightarrow>
   ('n json option \<Rightarrow> 'n json option \<Rightarrow> bool) option \<Rightarrow>
   ('n::zero) json \<Rightarrow> 'n effect list \<times> completion" where
  \<comment> \<open>from \<open>const { event, session } = payload\<close> to the end of the \<open>switch\<close>; the
      message of the first log line is a template literal over \<open>event\<close> and \<open>session\<close>;
      an optional callback returns \<open>True\<close> when it returns and \<open>False\<close> when it throws\<close>
  "dispatch_event onMessage onReaction onSessionStatus payload =
     (if payload = JNull then ([], Threw TypeError)
      else
        (let event = get_prop payload ''event'';
             session = get_prop payload ''session'';
             received = LogMsg (LogReceived event session)
         in if template_throws event \<or> template_throws session then ([], Threw TypeError)
            else if event = Some (JStr ''message'') \<or> event = Some (JStr ''message.any'') then
              (case get_prop payload ''payload'' of
                 None \<Rightarrow> ([received], Threw TypeError)
               | Some msgPayload \<Rightarrow>
                   if msgPayload = JNull then ([received], Threw TypeError)
                   else if \<not> js_truthy (get_prop msgPayload ''fromMe'') then
                     (case onMessage msgPayload session of
                        Fulfilled \<Rightarrow> ([received, CallOnMessage msgPayload session], Returned)
                      | Rejected \<Rightarrow>
                          ([received, CallOnMessage msgPayload session, ErrorLogHandlerFailed],
                           Returned)
                      | Pending \<Rightarrow> ([received, CallOnMessage msgPayload session], Hung))
                   else ([received], Returned))
            else if event = Some (JStr ''message.reaction'') then
              (case onReaction of
                 None \<Rightarrow> ([received], Returned)
               | Some f \<Rightarrow>
                   ([received, CallOnReaction (get_prop payload ''payload'') session],
                    if f (get_prop payload ''payload'') session then Returned else Threw CallbackError))
            else if event = Some (JStr ''session.status'') then
              (case onSessionStatus of
                 None \<Rightarrow> ([received], Returned)
               | Some f \<Rightarrow>
                   ([received, CallOnSessionStatus (get_prop payload ''payload'') session],
                    if f (get_prop payload ''payload'') session then Returned else Threw CallbackError))
            else ([received, LogMsg (LogIgnored event)], Returned)))"

definition ok_response :: http_response where
  "ok_response = json_response 200 [(''status'', ''ok'')]"

definition post_body ::
  "(string \<Rightarrow> string \<Rightarrow> string \<Rightarrow> string option) \<Rightarrow> (string \<Rightarrow> 'n json option) \<Rightarrow>
   ('n json \<Rightarrow> 'n json option \<Rightarrow> settle) \<Rightarrow>
   ('n json option \<Rightarrow> 'n json option \<Rightarrow> bool) option \<Rightarrow>
   ('n json option \<Rightarrow> 'n json option \<Rightarrow> bool) option \<Rightarrow>
   'c ResolvedWahaAccount \<Rightarrow> http_request \<Rightarrow> ('n::zero) effect list \<times> completion" where
  \<comment> \<open>the body of the \<open>try\<close> block\<close>
  "post_body hmac_hex json_parse onMessage onReaction onSessionStatus account req =
     (case req_body req of
        None \<Rightarrow> ([], Threw StreamError)
      | Some rawBody \<Rightarrow>
          (case check_hmac hmac_hex account req rawBody of
             HmacMissing \<Rightarrow>
               ([LogMsg LogMissingHeader,
                 Respond (json_response 401 [(''error'', ''Missing HMAC signature'')])], Returned)
           | HmacInvalid \<Rightarrow>
               ([LogMsg LogValidationFailed,
                 Respond (json_response 401 [(''error'', ''Invalid HMAC signature'')])], Returned)
           | HmacThrew e \<Rightarrow> ([], Threw e)
           | HmacPassed \<Rightarrow>
               (case json_parse rawBody of
                  None \<Rightarrow> ([ParseJson rawBody], Threw SyntaxError)
                | Some payload \<Rightarrow>
                    (let (effects, c) = dispatch_event onMessage onReaction onSessionStatus payload
                     in (ParseJson rawBody # Respond ok_response # effects, c)))))"

fun is_respond :: "'n effect \<Rightarrow> bool" where
  "is_respond (Respond _) = True"
| "is_respond _ = False"

definition headersSent :: "'n effect list \<Rightarrow> bool" where
  "headersSent effects = list_ex is_respond effects"

definition webhook_handler ::
  "(string \<Rightarrow> string \<Rightarrow> string \<Rightarrow> string option) \<Rightarrow> (string \<Rightarrow> 'n json option) \<Rightarrow>
   ('n json \<Rightarrow> 'n json option \<Rightarrow> settle) \<Rightarrow>
   ('n json option \<Rightarrow> 'n json option \<Rightarrow> bool) option \<Rightarrow>
   ('n json option \<Rightarrow> 'n json option \<Rightarrow> bool) option \<Rightarrow>
   'c ResolvedWahaAccount \<Rightarrow> http_request \<Rightarrow> ('n::zero) effect list \<times> completion" where
  "webhook_handler hmac_hex json_parse onMessage onReaction onSessionStatus account req =
     (if req_method req = ''GET'' then
        ([Respond \<lparr>res_status = 200, res_headers = [(''Content-Type'', ''text/plain'')],
                   res_body = PlainText ''OK''\<rparr>], Returned)
      else if req_method req \<noteq> ''POST'' then
        ([Respond \<lparr>res_status = 405,
                   res_headers = [(''Allow'', ''GET, POST''), (''Content-Type'', ''application/json'')],
                   res_body = JsonObject [(''error'', ''Method Not Allowed'')]\<rparr>], Returned)
      else
        (case post_body hmac_hex json_parse onMessage onReaction onSessionStatus account req of
           (effects, Threw e) \<Rightarrow>
             (effects @ [ErrorLogWebhook]
                @ (if headersSent effects then []
                   else [Respond (json_response 500 [(''error'', ''Internal server error'')])]),
              Returned)
         | (effects, c) \<Rightarrow> (effects, c)))"

definition response_of :: "'n effect list \<Rightarrow> http_response option" where
  \<comment> \<open>the response a run wrote, if any\<close>
  "response_of effects =
     (case filter is_respond effects of Respond r # _ \<Rightarrow> Some r | _ \<Rightarrow> None)"


section \<open>Remote API client (api-client.ts)\<close>

text \<open>
  A send method posts one request and either throws or returns the decoded response,
  whose \<open>id\<close> may be missing. The remote service is the argument \<open>client\<close>; the calls a
  function makes are returned in order.
\<close>

datatype 'n waha_call =
    SendText "string option" string string "string option"
      \<comment> \<open>session, chatId, text, replyTo\<close>
  | SendImage "string option" string string
      \<comment> \<open>session, chatId, file.url\<close>
  | SendLocation "string option" string 'n 'n "string option" "string option"
      \<comment> \<open>session, chatId, latitude, longitude, title, address\<close>

datatype send_outcome = SendFailed | Sent "string option"

section \<open>Access control and inbound dispatch (monitor.ts)\<close>

record access_result =
  allowed :: bool
  reason :: "string option"

definition js_String :: "('n \<Rightarrow> string) \<Rightarrow> 'n allow_entry \<Rightarrow> string" where
  \<comment> \<open>\<open>String(e)\<close>; \<open>num_str\<close> prints a number\<close>
  "js_String num_str e = (case e of EntryStr s \<Rightarrow> s | EntryNum n \<Rightarrow> num_str n)"

definition checkInboundAccessControl ::
  "('n \<Rightarrow> string) \<Rightarrow> string list option \<Rightarrow>
   string \<Rightarrow> string \<Rightarrow> bool \<Rightarrow> 'n ResolvedWahaAccount \<Rightarrow> access_result" where
  \<comment> \<open>\<open>store\<close> is what \<open>readAllowFromStore("waha")\<close> returns\<close>
  "checkInboundAccessControl num_str store senderId senderE164 isGroup account =
     (let dmPolicy = or_else (wc_dmPolicy (ra_config account)) DmPairing;
          groupPolicy = or_else (wc_groupPolicy (ra_config account)) GroupAllowlist
      in if isGroup then
           (if groupPolicy = GroupDisabled then
              \<lparr>allowed = False, reason = Some ''groups disabled''\<rparr>
            else if groupPolicy = GroupAllowlist
                    \<and> (let groupAllowFrom = or_else (wc_groupAllowFrom (ra_config account)) [];
                            normalizedGroupAllowFrom =
                              set (map (\<lambda>e. normalizeWahaAllowEntry (js_String num_str e)) groupAllowFrom)
                        in senderE164 \<notin> normalizedGroupAllowFrom \<and> senderId \<notin> normalizedGroupAllowFrom)
            then \<lparr>allowed = False, reason = Some ''sender not in group allowlist''\<rparr>
            else \<lparr>allowed = True, reason = None\<rparr>)
         else if dmPolicy = DmDisabled then \<lparr>allowed = False, reason = Some ''DMs disabled''\<rparr>
         else if dmPolicy = DmOpen then \<lparr>allowed = True, reason = None\<rparr>
         else
           (let configAllowFrom = or_else (wc_allowFrom (ra_config account)) [];
                storeAllowFrom = or_else store [];
                combinedAllowFrom = map (js_String num_str) configAllowFrom @ storeAllowFrom;
                normalizedDmAllowFrom = set (map normalizeWahaAllowEntry combinedAllowFrom)
            in if senderE164 \<in> normalizedDmAllowFrom \<or> senderId \<in> normalizedDmAllowFrom then
                 \<lparr>allowed = True, reason = None\<rparr>
               else if dmPolicy = DmPairing then
                 \<lparr>allowed = False, reason = Some ''pairing required''\<rparr>
               else \<lparr>allowed = False, reason = Some ''sender not in allowlist''\<rparr>))"

text \<open>
  Of the webhook message payload and of the message context, the fields that identify the
  chat, the sender and the text; timestamps, media, location and the quoted message are
  copied through by \<open>buildMsgContext\<close> and left out.
\<close>

record WahaMessagePayload =
  mp_id :: string
  mp_from :: string
  mp_to :: "string option"
  mp_body :: "string option"
  mp_caption :: "string option"
  mp_participant :: "string option"
  mp_notifyName :: "string option"  \<comment> \<open>\<open>_data?.notifyName\<close>\<close>

record msg_context =
  ctx_Body :: string
  ctx_From :: string
  ctx_To :: string
  ctx_SessionKey :: string
  ctx_AccountId :: string
  ctx_MessageSid :: string
  ctx_ChatType :: string
  ctx_SenderId :: string
  ctx_SenderE164 :: string
  ctx_SenderName :: "string option"
  ctx_SenderTag :: string

record built_context =
  bc_ctx :: msg_context
  bc_isGroup :: bool
  bc_senderId :: string
  bc_senderE164 :: string

definition buildMsgContext ::
  "WahaMessagePayload \<Rightarrow> string \<Rightarrow> 'n ResolvedWahaAccount \<Rightarrow> built_context" where
  "buildMsgContext payload session account =
     (let senderId = or_else (mp_participant payload) (mp_from payload);
          senderE164 = chatIdToE164 senderId;
          senderName = or_opt (mp_notifyName payload) (mp_participant payload);
          isGroup = isGroupChatId (mp_from payload);
          chatId = mp_from payload;
          body = or_else (or_opt (mp_body payload) (mp_caption payload)) []
      in \<lparr>bc_ctx =
            \<lparr>ctx_Body = body,
             ctx_From = chatId,
             ctx_To = or_else (mp_to payload) session,
             ctx_SessionKey = ''waha:'' @ ra_accountId account @ '':'' @ chatId,
             ctx_AccountId = ra_accountId account,
             ctx_MessageSid = mp_id payload,
             ctx_ChatType = (if isGroup then ''group'' else ''direct''),
             ctx_SenderId = senderId,
             ctx_SenderE164 = senderE164,
             ctx_SenderName = senderName,
             ctx_SenderTag =
               (case senderName of
                  None \<Rightarrow> senderE164
                | Some n \<Rightarrow> if n \<noteq> [] then n @ '' ('' @ senderE164 @ '')'' else senderE164)\<rparr>,
          bc_isGroup = isGroup, bc_senderId = senderId, bc_senderE164 = senderE164\<rparr>)"

datatype 'n hm_effect =
    ResolveAgentRoute
  | RecordInboundAt
  | LogDropping string "string option"
  | BuildPairingReply string "string option"
  | UpsertPairingRequest string "string option"
  | ClientCall "'n waha_call"
  | ResolveMessagesConfig
  | DispatchReply msg_context
  | LogAutoReplyFailed
  | LogErrorReplyFailed

definition handleMessage ::
  "('n \<Rightarrow> string) \<Rightarrow> string list option \<Rightarrow> (string \<Rightarrow> string option \<Rightarrow> string) \<Rightarrow>
   ('n waha_call \<Rightarrow> send_outcome) \<Rightarrow> (msg_context \<Rightarrow> settle) \<Rightarrow>
   'n ResolvedWahaAccount \<Rightarrow> WahaMessagePayload \<Rightarrow> string \<Rightarrow> 'n hm_effect list \<times> settle" where
  \<comment> \<open>\<open>buildPairingReply\<close> and \<open>dispatch\<close> are the host's pairing text and reply pipeline\<close>
  "handleMessage num_str store buildPairingReply client dispatch account payload session =
     (let built = buildMsgContext payload session account;
          ctx = bc_ctx built;
          accessCheck = checkInboundAccessControl num_str store
                          (bc_senderId built) (bc_senderE164 built) (bc_isGroup built) account;
          start = [ResolveAgentRoute, RecordInboundAt]
      in if \<not> allowed accessCheck then
           (let dropped = start @ [LogDropping (bc_senderE164 built) (reason accessCheck)]
            in if reason accessCheck = Some ''pairing required'' then
                 (let pairingReply = buildPairingReply (bc_senderE164 built) (ctx_SenderName ctx);
                      call = SendText (ra_session account) (normalizeWahaTarget (ctx_From ctx))
                               pairingReply None
                  in (dropped @ [BuildPairingReply (bc_senderE164 built) (ctx_SenderName ctx),
                                 UpsertPairingRequest (bc_senderE164 built) (ctx_SenderName ctx),
                                 ClientCall call],
                      case client call of SendFailed \<Rightarrow> Rejected | Sent _ \<Rightarrow> Fulfilled))
               else (dropped, Fulfilled))
         else
           (let dispatched = start @ [ResolveMessagesConfig, DispatchReply ctx]
            in case dispatch ctx of
                 Fulfilled \<Rightarrow> (dispatched, Fulfilled)
               | Pending \<Rightarrow> (dispatched, Pending)
               | Rejected \<Rightarrow>
                   (let call = SendText (ra_session account) (normalizeWahaTarget (ctx_From ctx))
                                 ''Sorry, I encountered an error processing your message.'' None
                    in (dispatched @ [LogAutoReplyFailed, ClientCall call]
                          @ (case client call of SendFailed \<Rightarrow> [LogErrorReplyFailed] | Sent _ \<Rightarrow> []),
                        Fulfilled))))"

section \<open>Outbound dispatch (channel.ts)\<close>

record 'n location =
  loc_latitude :: 'n
  loc_longitude :: 'n
  loc_title :: "string option"
  loc_address :: "string option"

record 'n reply_payload =
  rp_text :: "string option"
  rp_mediaUrls :: "string list option"
  rp_mediaUrl :: "string option"
  rp_location :: "'n location option"  \<comment> \<open>\<open>channelData?.waha?.location\<close>\<close>

record delivery =
  d_channel :: string
  d_messageId :: string
  d_chatId :: string

datatype send_error = WahaNotConfigured | RemoteRequestFailed

fun send_each ::
  "('n waha_call \<Rightarrow> send_outcome) \<Rightarrow> 'n waha_call list \<Rightarrow>
   'n waha_call list \<times> string option option \<Rightarrow>
   'n waha_call list + 'n waha_call list \<times> string option option" where
  \<comment> \<open>one \<open>for\<close> loop of awaited sends; the state is the calls made so far and
      \<open>lastResult\<close> (\<open>None\<close> for \<open>null\<close>, else the \<open>id\<close> of the response); a failed call
      ends the loop with the calls made\<close>
  "send_each client [] st = Inr st"
| "send_each client (c # cs) (made, lastResult) =
     (case client c of
        SendFailed \<Rightarrow> Inl (made @ [c])
      | Sent r \<Rightarrow> send_each client cs (made @ [c], Some r))"

definition sendPayload ::
  "string \<Rightarrow> (string \<Rightarrow> nat \<Rightarrow> string list) \<Rightarrow> ('n waha_call \<Rightarrow> send_outcome) \<Rightarrow>
   string \<Rightarrow> 'n reply_payload \<Rightarrow> string option \<Rightarrow> 'n OpenClawConfig \<Rightarrow>
   'n waha_call list \<times> (send_error + delivery)" where
  \<comment> \<open>\<open>chunkMarkdownText\<close> is the host's chunker; the result is the calls made and the
      value returned or the error thrown\<close>
  "sendPayload D chunkMarkdownText client to payload accountId cfg =
     (let account = resolveWahaAccount D cfg accountId
      in if \<not> isWahaAccountConfigured account then ([], Inl WahaNotConfigured)
         else
           (let chatId = normalizeWahaTarget to;
                text = or_else (rp_text payload) [];
                chunks = (if trimmed_truthy text then chunkMarkdownText text 4000 else []);
                mediaUrls =
                  (case rp_mediaUrls payload of
                     Some urls \<Rightarrow> urls
                   | None \<Rightarrow> (case rp_mediaUrl payload of
                                None \<Rightarrow> []
                              | Some u \<Rightarrow> if u \<noteq> [] then [u] else []));
                locations =
                  (case rp_location payload of
                     None \<Rightarrow> []
                   | Some l \<Rightarrow> [SendLocation (ra_session account) chatId (loc_latitude l)
                                 (loc_longitude l) (loc_title l) (loc_address l)])
            in case send_each client
                      (map (\<lambda>chunk. SendText (ra_session account) chatId chunk None) chunks)
                      ([], None) of
                 Inl made \<Rightarrow> (made, Inl RemoteRequestFailed)
               | Inr st1 \<Rightarrow>
                   (case send_each client
                           (map (\<lambda>mediaUrl. SendImage (ra_session account) chatId mediaUrl) mediaUrls)
                           st1 of
                      Inl made \<Rightarrow> (made, Inl RemoteRequestFailed)
                    | Inr st2 \<Rightarrow>
                        (case send_each client locations st2 of
                           Inl made \<Rightarrow> (made, Inl RemoteRequestFailed)
                         | Inr (made, lastResult) \<Rightarrow>
                             (made,
                              Inr \<lparr>d_channel = ''waha'',
                                   d_messageId =
                                     (case lastResult of
                                        Some (Some i) \<Rightarrow> i
                                      | _ \<Rightarrow> ''sent''),
                                   d_chatId = chatId\<rparr>)))))"


section \<open>Names for what the properties speak about\<close>

fun is_on_message :: "'n effect \<Rightarrow> bool" where
  "is_on_message (CallOnMessage _ _) = True"
| "is_on_message _ = False"

fun is_parse :: "'n effect \<Rightarrow> bool" where
  "is_parse (ParseJson _) = True"
| "is_parse _ = False"

fun is_callback :: "'n effect \<Rightarrow> bool" where
  "is_callback (CallOnMessage _ _) = True"
| "is_callback (CallOnReaction _ _) = True"
| "is_callback (CallOnSessionStatus _ _) = True"
| "is_callback _ = False"

definition dm_policy_of :: "'n ResolvedWahaAccount \<Rightarrow> dm_policy" where
  \<comment> \<open>the effective DM policy, \<open>account.config.dmPolicy ?? "pairing"\<close>\<close>
  "dm_policy_of account = or_else (wc_dmPolicy (ra_config account)) DmPairing"

definition dm_allow_set ::
  "('n \<Rightarrow> string) \<Rightarrow> string list option \<Rightarrow> 'n ResolvedWahaAccount \<Rightarrow> string set" where
  \<comment> \<open>the combined allow-list: the entries of the configured \<open>allowFrom\<close> followed by those
      of the pairing store, each normalized\<close>
  "dm_allow_set num_str store account =
     set (map normalizeWahaAllowEntry
            (map (js_String num_str) (or_else (wc_allowFrom (ra_config account)) [])
             @ or_else store []))"

definition sender_of :: "WahaMessagePayload \<Rightarrow> string" where
  \<comment> \<open>the sender of a message: the group participant if there is one, else \<open>from\<close>\<close>
  "sender_of payload = or_else (mp_participant payload) (mp_from payload)"

section \<open>Fixtures for concrete runs\<close>

definition fixture_digest :: "string \<Rightarrow> string \<Rightarrow> string \<Rightarrow> string option" where
  \<comment> \<open>stands for \<open>createHmac\<close>: 128 hex digits under \<open>sha512\<close>, no other algorithm\<close>
  "fixture_digest alg key body =
     (if alg = ''sha512'' then Some (replicate 128 (CHR ''0'')) else None)"

definition echo_body :: string where
  \<open>echo_body =
     ''{"event":"message","session":"default","payload":{"from":"15551234567@c.us","fromMe":true}}''\<close>

definition inbound_body :: string where
  \<open>inbound_body =
     ''{"event":"message","session":"default","payload":{"from":"15551234567@c.us","fromMe":false}}''\<close>

definition message_event :: "bool \<Rightarrow> nat json" where
  "message_event fromMe =
     JObj [(''event'', JStr ''message''), (''session'', JStr ''default''),
           (''payload'', JObj [(''from'', JStr ''15551234567@c.us''), (''fromMe'', JBool fromMe)])]"

definition fixture_parse :: "string \<Rightarrow> nat json option" where
  \<comment> \<open>stands for \<open>JSON.parse\<close> on the two bodies above\<close>
  "fixture_parse body =
     (if body = echo_body then Some (message_event True)
      else if body = inbound_body then Some (message_event False)
      else None)"

definition never_settles :: "nat json \<Rightarrow> nat json option \<Rightarrow> settle" where
  \<comment> \<open>a message handler whose promise stays pending\<close>
  "never_settles payload session = Pending"

definition post_request :: "string \<Rightarrow> (string \<times> header_value) list \<Rightarrow> http_request" where
  "post_request body hdrs = \<lparr>req_method = ''POST'', req_headers = map_of hdrs, req_body = Some body\<rparr>"

definition base_config :: "nat WahaConfig" where
  \<comment> \<open>a channel-wide configuration with all three credentials\<close>
  "base_config =
     empty_WahaConfig
       \<lparr>wc_url := Some ''http://waha:3000'', wc_apiKey := Some ''secret'',
        wc_session := Some ''main''\<rparr>"

definition offline_client :: "nat waha_call \<Rightarrow> send_outcome" where
  "offline_client call = SendFailed"

definition echo_client :: "nat waha_call \<Rightarrow> send_outcome" where
  "echo_client call = Sent (Some ''msg-1'')"

definition one_chunk :: "string \<Rightarrow> nat \<Rightarrow> string list" where
  "one_chunk text limit = [text]"

definition blank_payload :: "nat reply_payload" where
  "blank_payload =
     \<lparr>rp_text = Some ''   '', rp_mediaUrls = None, rp_mediaUrl = None, rp_location = None\<rparr>"

definition print_nat :: "nat \<Rightarrow> string" where
  \<comment> \<open>stands for \<open>String\<close> on a number; no fixture has a numeric entry\<close>
  "print_nat n = ''0''"

definition pairing_text :: "string \<Rightarrow> string option \<Rightarrow> string" where
  "pairing_text senderId senderName = ''Pairing code required''"

definition reply_ok :: "msg_context \<Rightarrow> settle" where
  "reply_ok ctx = Fulfilled"

definition direct_message :: "string \<Rightarrow> WahaMessagePayload" where
  "direct_message sender =
     \<lparr>mp_id = ''m1'', mp_from = sender, mp_to = None, mp_body = Some ''hello'', mp_caption = None,
      mp_participant = None, mp_notifyName = None\<rparr>"

section \<open>Properties of the target normalizer\<close>

lemma to_lower_cases: "to_lower c = c \<or> (c, to_lower c) \<in> set ascii_case_table"
  unfolding to_lower_def by (cases "map_of ascii_case_table c") (auto dest: map_of_SomeD)

lemma to_lower_w: "to_lower c = CHR ''w'' \<Longrightarrow> c = CHR ''w'' \<or> c = CHR ''W''"
  using to_lower_cases [of c] by (auto simp: ascii_case_table_def)

lemma digit_not_space: "is_digit c \<Longrightarrow> \<not> is_js_space c"
  by (auto simp: is_digit_def is_js_space_def)

lemma plus_not_space: "\<not> is_js_space (CHR ''+'')"
  by (simp add: is_js_space_def)

lemma s_not_space: "\<not> is_js_space (CHR ''s'')"
  by (simp add: is_js_space_def)

lemma js_trim_Nil: "js_trim [] = []"
  by (simp add: js_trim_def)

lemma js_trim_id:
  assumes "s \<noteq> []" "\<not> is_js_space (hd s)" "\<not> is_js_space (last s)"
  shows "js_trim s = s"
proof -
  from assms(1,2) have a: "dropWhile is_js_space s = s" by (cases s) auto
  from assms(1,3) have "\<not> is_js_space (hd (rev s))" by (simp add: hd_rev)
  with assms(1) have "dropWhile is_js_space (rev s) = rev s" by (cases "rev s") auto
  with a show ?thesis by (simp add: js_trim_def)
qed

lemma js_trim_no_trailing: "js_trim s = [] \<or> \<not> is_js_space (last (js_trim s))"
proof (cases "js_trim s = []")
  case False
  let ?d = "dropWhile is_js_space (rev (dropWhile is_js_space s))"
  from False have ne: "?d \<noteq> []" by (simp add: js_trim_def)
  then have "\<not> is_js_space (hd ?d)" by (rule hd_dropWhile)
  moreover have "last (js_trim s) = hd ?d" using ne by (simp add: js_trim_def last_rev)
  ultimately show ?thesis by simp
qed simp

lemma starts_with_ci_hd:
  "starts_with_ci (p # ps) s \<Longrightarrow> s \<noteq> [] \<and> to_lower (hd s) = p"
  by (cases s) (auto simp: starts_with_ci_def)

lemma strip_waha_prefix_id: "\<not> starts_with_ci ''waha:'' s \<Longrightarrow> strip_waha_prefix s = s"
  by (simp add: strip_waha_prefix_def)

lemma strip_waha_prefix_drop: "\<exists>n. strip_waha_prefix s = drop n s"
proof -
  have "strip_waha_prefix s = s \<or> strip_waha_prefix s = drop 5 s
        \<or> strip_waha_prefix s = drop 10 s \<or> strip_waha_prefix s = drop 11 s"
    by (simp add: strip_waha_prefix_def Let_def)
  then show ?thesis by (metis drop0)
qed

lemma no_trailing_drop:
  assumes "t = [] \<or> \<not> is_js_space (last t)"
  shows "drop n t = [] \<or> \<not> is_js_space (last (drop n t))"
proof (cases "n < length t")
  case True
  then have "last (drop n t) = last t" by (rule last_drop)
  with True assms show ?thesis by auto
qed simp

lemma digits_not_waha: "s \<noteq> [] \<Longrightarrow> is_digit (hd s) \<Longrightarrow> \<not> starts_with_ci ''waha:'' s"
proof
  assume a: "s \<noteq> []" "is_digit (hd s)" "starts_with_ci ''waha:'' s"
  then have "to_lower (hd s) = CHR ''w''" using starts_with_ci_hd by fastforce
  then have "hd s = CHR ''w'' \<or> hd s = CHR ''W''" by (rule to_lower_w)
  with a(2) show False by (auto simp: is_digit_def)
qed


lemma not_suffix_digits:
  assumes "\<forall>c\<in>set s. is_digit c \<or> c = CHR ''+''" "CHR ''@'' \<in> set t"
  shows "\<not> suffix t s"
proof
  assume "suffix t s"
  then have "set t \<subseteq> set s" by (rule set_mono_suffix)
  with assms(2) have "CHR ''@'' \<in> set s" by (rule rev_subsetD)
  with assms(1) have "is_digit (CHR ''@'') \<or> CHR ''@'' = CHR ''+''" by (rule bspec)
  then show False by (simp add: is_digit_def)
qed

lemma digits_only_id: "\<forall>c\<in>set ds. is_digit c \<Longrightarrow> digits_only ds = ds"
  by (simp add: digits_only_def)

lemma digits_only_all: "\<forall>c\<in>set (digits_only s). is_digit c"
  by (simp add: digits_only_def)

lemma normalize_digits:
  assumes "ds \<noteq> []" "\<forall>c\<in>set ds. is_digit c"
  shows "normalizeWahaTarget ds = ds @ ''@c.us''"
proof -
  from assms have h: "is_digit (hd ds)" and l: "is_digit (last ds)" by simp_all
  have t: "js_trim ds = ds"
    using assms(1) h l by (intro js_trim_id) (simp_all add: digit_not_space)
  have p: "strip_waha_prefix ds = ds"
    using assms(1) h by (intro strip_waha_prefix_id digits_not_waha)
  have s: "\<not> suffix ''@c.us'' ds" "\<not> suffix ''@g.us'' ds" "\<not> suffix ''@newsletter'' ds"
    using assms(2) by (intro not_suffix_digits; simp)+
  have q: "\<not> prefix ''+'' ds"
    using assms by (cases ds) (auto simp: is_digit_def)
  show ?thesis
    using assms(1) by (simp add: normalizeWahaTarget_def t p s q digits_only_id [OF assms(2)])
qed

lemma plus_not_waha: "\<not> starts_with_ci ''waha:'' (CHR ''+'' # s)"
proof
  assume "starts_with_ci ''waha:'' (CHR ''+'' # s)"
  then have "to_lower (CHR ''+'') = CHR ''w''" using starts_with_ci_hd by fastforce
  then have "CHR ''+'' = CHR ''w'' \<or> CHR ''+'' = CHR ''W''" by (rule to_lower_w)
  then show False by simp
qed

lemma normalize_plus_digits:
  assumes "ds \<noteq> []" "\<forall>c\<in>set ds. is_digit c"
  shows "normalizeWahaTarget (''+'' @ ds) = ds @ ''@c.us''"
proof -
  let ?s = "CHR ''+'' # ds"
  from assms have l: "is_digit (last ds)" by simp
  have t: "js_trim ?s = ?s"
    using assms(1) l by (intro js_trim_id) (simp_all add: digit_not_space plus_not_space)
  have p: "strip_waha_prefix ?s = ?s"
    by (intro strip_waha_prefix_id plus_not_waha)
  have s: "\<not> suffix ''@c.us'' ?s" "\<not> suffix ''@g.us'' ?s" "\<not> suffix ''@newsletter'' ?s"
    using assms(2) by (intro not_suffix_digits; simp)+
  have d: "digits_only ?s = ds"
    using assms(2) by (simp add: digits_only_def is_digit_def)
  show ?thesis
    using assms(1) by (simp add: normalizeWahaTarget_def t p s e164ToChatId_def d)
qed

lemma match_individual_chatid:
  assumes "ds \<noteq> []" "\<forall>c\<in>set ds. is_digit c"
  shows "match_individual (ds @ ''@c.us'') = Some ds"
proof -
  have a: "takeWhile is_digit (ds @ ''@c.us'') = ds"
    using assms(2) by (simp add: takeWhile_append2 is_digit_def)
  have b: "dropWhile is_digit (ds @ ''@c.us'') = ''@c.us''"
    using assms(2) by (simp add: dropWhile_append2 is_digit_def)
  have c: "to_lower (CHR ''@'') = CHR ''@''" "to_lower (CHR ''c'') = CHR ''c''"
    "to_lower (CHR ''.'') = CHR ''.''" "to_lower (CHR ''u'') = CHR ''u''"
    "to_lower (CHR ''s'') = CHR ''s''"
    by code_simp+
  show ?thesis
    using assms(1) by (simp add: match_individual_def a b c)
qed

lemma chatIdToE164_individual:
  assumes "ds \<noteq> []" "\<forall>c\<in>set ds. is_digit c"
  shows "chatIdToE164 (ds @ ''@c.us'') = ''+'' @ ds"
  by (simp add: chatIdToE164_def match_individual_chatid [OF assms])

text \<open>
  C6. For a non-empty run of digits \<open>ds\<close>, both starting forms, \<open>ds\<close> and \<open>+ds\<close>, are
  taken by \<open>normalizeWahaTarget\<close> and then \<open>chatIdToE164\<close> to the same E.164 form \<open>+ds\<close>.
\<close>

theorem e164_roundtrip:
  assumes "ds \<noteq> []" "\<forall>c\<in>set ds. is_digit c"
  shows "chatIdToE164 (normalizeWahaTarget ds) = ''+'' @ ds \<and>
         chatIdToE164 (normalizeWahaTarget (''+'' @ ds)) = ''+'' @ ds"
  by (simp only: normalize_digits [OF assms] normalize_plus_digits [OF assms]
        chatIdToE164_individual [OF assms])

theorem e164_roundtrip_witness:
  "chatIdToE164 (normalizeWahaTarget ''5511976819114'') = ''+5511976819114'' \<and>
   chatIdToE164 (normalizeWahaTarget ''+5511976819114'') = ''+5511976819114''"
  using e164_roundtrip [of "''5511976819114''"] by (simp add: is_digit_def)

lemma normalize_chatid:
  assumes "ds \<noteq> []" "\<forall>c\<in>set ds. is_digit c"
  shows "normalizeWahaTarget (ds @ ''@c.us'') = ds @ ''@c.us''"
proof -
  let ?s = "ds @ ''@c.us''"
  from assms have h: "is_digit (hd ?s)" by simp
  have t: "js_trim ?s = ?s"
    using h by (intro js_trim_id) (simp_all add: digit_not_space s_not_space)
  have p: "strip_waha_prefix ?s = ?s"
    using h by (intro strip_waha_prefix_id digits_not_waha) simp_all
  have u: "suffix ''@c.us'' ?s"
    by (rule suffixI) (rule refl)
  show ?thesis
    by (simp add: normalizeWahaTarget_def t p u Let_def del: append.simps)
qed

lemma normalizeWahaTarget_stripped:
  "normalizeWahaTarget t = normalize_stripped (strip_waha_prefix (js_trim t))"
  by (simp add: normalizeWahaTarget_def normalize_stripped_def Let_def)

lemma normalize_stripped_cases:
  "normalize_stripped st = st \<or>
   (digits_only st \<noteq> [] \<and> normalize_stripped st = digits_only st @ ''@c.us'')"
  unfolding normalize_stripped_def e164ToChatId_def Let_def by presburger

text \<open>
  C4. \<open>normalizeWahaTarget\<close> applied twice gives what it gives once, for every input whose
  remainder, after trimming and removing the scheme prefix once, begins neither with
  white space nor with a further scheme prefix.
\<close>

theorem normalize_idempotent_when_clean:
  assumes "\<not> starts_with_ci ''waha:'' (strip_waha_prefix (js_trim x))"
      and "\<not> starts_with_space (strip_waha_prefix (js_trim x))"
  shows "normalizeWahaTarget (normalizeWahaTarget x) = normalizeWahaTarget x"
proof -
  define st where "st = strip_waha_prefix (js_trim x)"
  have a1: "\<not> starts_with_ci ''waha:'' st" and a2: "\<not> starts_with_space st"
    using assms by (simp_all add: st_def)
  obtain n where n: "st = drop n (js_trim x)"
    using strip_waha_prefix_drop st_def by blast
  have nt: "st = [] \<or> \<not> is_js_space (last st)"
    unfolding n using js_trim_no_trailing by (rule no_trailing_drop)
  have tr: "js_trim st = st"
  proof (cases st)
    case Nil
    then show ?thesis by (simp add: js_trim_Nil)
  next
    case (Cons c cs)
    with a2 nt show ?thesis
      by (intro js_trim_id) (simp_all add: starts_with_space_def)
  qed
  have sp: "strip_waha_prefix st = st"
    using a1 by (rule strip_waha_prefix_id)
  have x: "normalizeWahaTarget x = normalize_stripped st"
    by (simp add: normalizeWahaTarget_stripped st_def)
  have same: "normalizeWahaTarget st = normalize_stripped st"
    by (simp add: normalizeWahaTarget_stripped tr sp)
  from normalize_stripped_cases [of st] show ?thesis
  proof (elim disjE conjE)
    assume "normalize_stripped st = st"
    then show ?thesis using x same by simp
  next
    assume d: "digits_only st \<noteq> []"
      and e: "normalize_stripped st = digits_only st @ ''@c.us''"
    show ?thesis
      unfolding x e using d digits_only_all by (rule normalize_chatid)
  qed
qed

theorem normalize_idempotent_when_clean_witness:
  "normalizeWahaTarget (normalizeWahaTarget ''  WAHA:User:+55 (11) 97681-9114 '')
     = normalizeWahaTarget ''  WAHA:User:+55 (11) 97681-9114 ''"
proof -
  have a: "\<not> starts_with_ci ''waha:'' (strip_waha_prefix (js_trim ''  WAHA:User:+55 (11) 97681-9114 ''))"
    by code_simp
  have b: "\<not> starts_with_space (strip_waha_prefix (js_trim ''  WAHA:User:+55 (11) 97681-9114 ''))"
    by code_simp
  show ?thesis using normalize_idempotent_when_clean [OF a b] .
qed

text \<open>
  Without that condition the second application changes the result: the prefix is
  removed after trimming, and what follows it is neither trimmed nor searched for a prefix
  again.
\<close>

theorem normalize_not_idempotent:
  "normalizeWahaTarget (normalizeWahaTarget ''waha: 123'') \<noteq> normalizeWahaTarget ''waha: 123''"
  by code_simp

text \<open>
  C5. On a group id \<open>chatIdToE164\<close> does not pass the input through: its last branch
  keeps the digits of any input that has one and prepends \<open>+\<close>.
\<close>

theorem chatIdToE164_group_id:
  "chatIdToE164 ''120363012345678901@g.us'' = ''+120363012345678901''"
  by code_simp

section \<open>Properties of the account resolver\<close>

lemma push_new_ids_distinct:
  "distinct ks \<Longrightarrow> push_new_ids ks acc = acc @ filter (\<lambda>k. k \<notin> set acc) ks"
proof (induction ks arbitrary: acc)
  case Nil
  then show ?case by simp
next
  case (Cons k ks)
  from Cons.prems have d: "distinct ks" and nk: "k \<notin> set ks" by simp_all
  show ?case
  proof (cases "k \<in> set acc")
    case True
    then show ?thesis using Cons.IH [OF d, of acc] by simp
  next
    case False
    have "filter (\<lambda>x. x \<notin> set (acc @ [k])) ks = filter (\<lambda>x. x \<notin> set acc) ks"
      using nk by (intro filter_cong) auto
    then show ?thesis using False Cons.IH [OF d, of "acc @ [k]"] by simp
  qed
qed

text \<open>
  C9. An absent channel configuration counts as an empty one. With the default account
  fully credentialed, \<open>listWahaAccountIds\<close> returns the default id first, followed by the
  keys of the named-accounts map other than the default id, in key order; otherwise it
  returns exactly the keys of the map (none without a configuration). So, when the map has
  no key equal to the default id, the default id is in the list if and only if the default
  account has URL, API key and session name populated.
\<close>

theorem listWahaAccountIds_spec:
  assumes "wc = or_else (getWahaConfig cfg) empty_WahaConfig"
    and "distinct (named_account_keys wc)"
  shows "listWahaAccountIds D cfg =
           (if default_credentialed wc then D # filter (\<lambda>k. k \<noteq> D) (named_account_keys wc)
            else named_account_keys wc)
       \<and> (D \<notin> set (named_account_keys wc) \<longrightarrow>
            (D \<in> set (listWahaAccountIds D cfg) \<longleftrightarrow> default_credentialed wc))"
proof -
  have eq: "listWahaAccountIds D cfg =
           (if default_credentialed wc then D # filter (\<lambda>k. k \<noteq> D) (named_account_keys wc)
            else named_account_keys wc)"
  proof (cases "getWahaConfig cfg")
    case None
    with assms(1) have "wc = empty_WahaConfig" by (simp add: or_else_def)
    then have "\<not> default_credentialed wc" and "named_account_keys wc = []"
      by (simp_all add: default_credentialed_def named_account_keys_def empty_WahaConfig_def
            truthy_str_def)
    with None show ?thesis by (simp add: listWahaAccountIds_def)
  next
    case (Some c)
    with assms(1) have g: "getWahaConfig cfg = Some wc" by (simp add: or_else_def)
    show ?thesis
    proof (cases "wc_accounts wc")
      case None
      then show ?thesis
        using g by (simp add: listWahaAccountIds_def named_account_keys_def)
    next
      case (Some accounts)
      with assms(2) have d: "distinct (object_keys accounts)"
        by (simp add: named_account_keys_def)
      show ?thesis
        using g Some
        by (simp add: listWahaAccountIds_def named_account_keys_def push_new_ids_distinct [OF d])
    qed
  qed
  have "D \<in> set (listWahaAccountIds D cfg) \<longleftrightarrow> default_credentialed wc"
    if "D \<notin> set (named_account_keys wc)"
    using that by (simp add: eq)
  with eq show ?thesis by blast
qed

theorem listWahaAccountIds_spec_witness:
  "listWahaAccountIds ''default''
     (config_of (empty_WahaConfig
        \<lparr>wc_url := Some ''http://waha:3000'', wc_apiKey := Some ''k'', wc_session := Some ''main'',
         wc_accounts := Some [(''work'', session_only ''w''), (''default'', session_only ''d''),
                              (''home'', session_only ''h'')]\<rparr> :: nat WahaConfig))
     = [''default'', ''work'', ''home'']
   \<and> listWahaAccountIds ''default'' (\<lparr>cfg_channels = None\<rparr> :: nat OpenClawConfig) = []"
proof -
  let ?wc = "empty_WahaConfig
        \<lparr>wc_url := Some ''http://waha:3000'', wc_apiKey := Some ''k'', wc_session := Some ''main'',
         wc_accounts := Some [(''work'', session_only ''w''), (''default'', session_only ''d''),
                              (''home'', session_only ''h'')]\<rparr> :: nat WahaConfig"
  let ?none = "\<lparr>cfg_channels = None\<rparr> :: nat OpenClawConfig"
  have a: "?wc = or_else (getWahaConfig (config_of ?wc)) empty_WahaConfig"
    by (simp add: getWahaConfig_def config_of_def or_else_def)
  have b: "distinct (named_account_keys ?wc)"
    by (simp add: named_account_keys_def object_keys_def)
  have c: "(empty_WahaConfig :: nat WahaConfig) = or_else (getWahaConfig ?none) empty_WahaConfig"
    by (simp add: getWahaConfig_def or_else_def)
  have d: "distinct (named_account_keys (empty_WahaConfig :: nat WahaConfig))"
    by (simp add: named_account_keys_def empty_WahaConfig_def)
  have x: "listWahaAccountIds ''default'' (config_of ?wc) = [''default'', ''work'', ''home'']"
    using listWahaAccountIds_spec [OF a b, of "''default''"]
    by (simp add: default_credentialed_def truthy_str_def named_account_keys_def object_keys_def)
  have y: "listWahaAccountIds ''default'' ?none = []"
    using listWahaAccountIds_spec [OF c d, of "''default''"]
    by (simp add: default_credentialed_def truthy_str_def named_account_keys_def
          empty_WahaConfig_def)
  from x y show ?thesis by simp
qed

text \<open>
  A key of the map equal to the default id is listed like any other key: it comes first
  here although the default account has no credentials.
\<close>

theorem listWahaAccountIds_default_key:
  "listWahaAccountIds ''default''
     (config_of (empty_WahaConfig
        \<lparr>wc_accounts := Some [(''default'', session_only ''d'')]\<rparr> :: nat WahaConfig))
     = [''default'']
   \<and> \<not> default_credentialed (empty_WahaConfig
        \<lparr>wc_accounts := Some [(''default'', session_only ''d'')]\<rparr> :: nat WahaConfig)"
  by (simp add: listWahaAccountIds_def getWahaConfig_def config_of_def default_credentialed_def
        empty_WahaConfig_def truthy_str_def object_keys_def)

text \<open>
  What the resolver does by cases. For an id other than the default one that names an
  entry of the accounts map, the session of the resolved record is that entry's session,
  defined or not, whatever the channel-wide session is. For the default id, and for an id
  under which a property read on the accounts map finds nothing, the record is built from
  the channel-wide configuration alone, its session falling back to \<open>"default"\<close>; without a
  configuration the URL and the API key of the record are empty strings.
\<close>

lemma resolveWahaAccount_cases:
  fixes cfg :: "'n OpenClawConfig" and D :: string and accountId :: "string option"
  defines "wc \<equiv> or_else (getWahaConfig cfg) empty_WahaConfig"
  defines "nid \<equiv> normalizeAccountId D accountId"
  shows "(nid \<noteq> D \<and> lookup_account wc nid = Some (OwnAccount named) \<longrightarrow>
            ra_session (resolveWahaAccount D cfg accountId) = ac_session named)
       \<and> (nid = D \<or> lookup_account wc nid = None \<longrightarrow>
            resolveWahaAccount D cfg accountId =
              \<lparr>ra_accountId = D, ra_name = wc_name wc, ra_enabled = or_else (wc_enabled wc) True,
               ra_url = or_else (wc_url wc) [], ra_apiKey = or_else (wc_apiKey wc) [],
               ra_session = Some (or_else (wc_session wc) ''default''),
               ra_hmacKey = wc_hmacKey wc, ra_config = wc\<rparr>)
       \<and> (getWahaConfig cfg = None \<longrightarrow>
            resolveWahaAccount D cfg accountId =
              \<lparr>ra_accountId = D, ra_name = None, ra_enabled = True, ra_url = [], ra_apiKey = [],
               ra_session = Some ''default'', ra_hmacKey = None, ra_config = empty_WahaConfig\<rparr>)"
proof (intro conjI impI)
  assume "nid \<noteq> D \<and> lookup_account wc nid = Some (OwnAccount named)"
  then show "ra_session (resolveWahaAccount D cfg accountId) = ac_session named"
    by (simp add: resolveWahaAccount_def wc_def [symmetric] nid_def [symmetric]
          read_properties_def)
next
  assume "nid = D \<or> lookup_account wc nid = None"
  then show "resolveWahaAccount D cfg accountId =
              \<lparr>ra_accountId = D, ra_name = wc_name wc, ra_enabled = or_else (wc_enabled wc) True,
               ra_url = or_else (wc_url wc) [], ra_apiKey = or_else (wc_apiKey wc) [],
               ra_session = Some (or_else (wc_session wc) ''default''),
               ra_hmacKey = wc_hmacKey wc, ra_config = wc\<rparr>"
    by (auto simp: resolveWahaAccount_def wc_def [symmetric] nid_def [symmetric])
next
  assume n: "getWahaConfig cfg = None"
  then have e: "wc = empty_WahaConfig" by (simp add: wc_def or_else_def)
  have "lookup_account wc nid = None"
    by (simp add: e lookup_account_def empty_WahaConfig_def)
  then show "resolveWahaAccount D cfg accountId =
              \<lparr>ra_accountId = D, ra_name = None, ra_enabled = True, ra_url = [], ra_apiKey = [],
               ra_session = Some ''default'', ra_hmacKey = None, ra_config = empty_WahaConfig\<rparr>"
    unfolding resolveWahaAccount_def wc_def [symmetric] nid_def [symmetric] Let_def
    by (simp add: e) (simp add: empty_WahaConfig_def or_else_def)
qed

text \<open>
  C8. An id that is no key of the accounts map is not always resolved from the
  channel-wide defaults: \<open>accounts?.[id]\<close> also finds what the map inherits from
  \<open>Object.prototype\<close>. With credentials and session \<open>"main"\<close> channel-wide and the one
  named account \<open>work\<close>, the id \<open>constructor\<close> takes the named-account branch: the record
  keeps that id, is named \<open>"Object"\<close> and has no session.
\<close>

theorem resolveWahaAccount_inherited_id:
  "resolveWahaAccount ''default''
     (config_of (base_config\<lparr>wc_accounts := Some [(''work'', session_only ''w'')]\<rparr>))
     (Some ''constructor'')
   = \<lparr>ra_accountId = ''constructor'', ra_name = Some ''Object'', ra_enabled = True,
      ra_url = ''http://waha:3000'', ra_apiKey = ''secret'', ra_session = None,
      ra_hmacKey = None,
      ra_config = base_config\<lparr>wc_accounts := Some [(''work'', session_only ''w'')]\<rparr>\<rparr>
   \<and> ''constructor'' \<notin> set (named_account_keys
                                (base_config\<lparr>wc_accounts := Some [(''work'', session_only ''w'')]\<rparr>))"
  by (simp add: resolveWahaAccount_def normalizeAccountId_def getWahaConfig_def config_of_def
        or_else_def or_opt_def lookup_account_def object_prototype_members_def
        read_properties_def spread_properties_def no_properties_def merge_config_def
        base_config_def empty_WahaConfig_def named_account_keys_def object_keys_def)

section \<open>Properties of the webhook endpoint\<close>

lemma check_hmac_length_mismatch:
  assumes "ra_hmacKey account = Some key" "key \<noteq> []"
    and "req_headers req ''x-webhook-hmac'' = Some (HStr sig)" "sig \<noteq> []"
    and "req_headers req ''x-webhook-hmac-algorithm'' = None"
    and "hmac_hex ''sha512'' key rawBody = Some computed"
    and "length (utf8_bytes sig) \<noteq> length (utf8_bytes computed)"
  shows "check_hmac hmac_hex account req rawBody = HmacThrew RangeError"
  using assms
  by (simp add: check_hmac_def or_else_def validateWahaHmac_def timingSafeEqual_def)

lemma hmac_failure_stops:
  assumes "req_method req = ''POST''" "req_body req = Some rawBody"
    and "check_hmac hmac_hex account req rawBody \<noteq> HmacPassed"
  shows "\<not> list_ex is_parse
            (fst (webhook_handler hmac_hex json_parse onMessage onReaction onSessionStatus account req))
       \<and> \<not> list_ex is_callback
            (fst (webhook_handler hmac_hex json_parse onMessage onReaction onSessionStatus account req))
       \<and> snd (webhook_handler hmac_hex json_parse onMessage onReaction onSessionStatus account req)
           = Returned
       \<and> (\<exists>r. response_of
              (fst (webhook_handler hmac_hex json_parse onMessage onReaction onSessionStatus account req))
              = Some r \<and> (res_status r = 401 \<or> res_status r = 500))"
  using assms
  by (cases "check_hmac hmac_hex account req rawBody")
     (simp_all add: webhook_handler_def post_body_def headersSent_def response_of_def
        json_response_def)

text \<open>
  C1. A signature whose byte length differs from that of the computed digest is not
  answered with 401: \<open>timingSafeEqual\<close> throws on it, the handler's \<open>catch\<close> block takes
  over and the response is 500. (The body is not parsed and no callback runs, as in every
  other failed verification.)
\<close>

theorem signature_length_mismatch_500:
  assumes "req_method req = ''POST''" "req_body req = Some rawBody"
    and "ra_hmacKey account = Some key" "key \<noteq> []"
    and "req_headers req ''x-webhook-hmac'' = Some (HStr sig)" "sig \<noteq> []"
    and "req_headers req ''x-webhook-hmac-algorithm'' = None"
    and "hmac_hex ''sha512'' key rawBody = Some computed"
    and "length (utf8_bytes sig) \<noteq> length (utf8_bytes computed)"
  shows "webhook_handler hmac_hex json_parse onMessage onReaction onSessionStatus account req =
           ([ErrorLogWebhook, Respond (json_response 500 [(''error'', ''Internal server error'')])],
            Returned)"
proof -
  have c: "check_hmac hmac_hex account req rawBody = HmacThrew RangeError"
    using assms(3-9) by (rule check_hmac_length_mismatch)
  have p: "post_body hmac_hex json_parse onMessage onReaction onSessionStatus account req =
             ([], Threw RangeError)"
    by (simp add: post_body_def assms(2) c)
  show ?thesis
    by (simp add: webhook_handler_def assms(1) p headersSent_def)
qed

theorem signature_length_mismatch_500_witness:
  "webhook_handler fixture_digest fixture_parse never_settles None None
     (resolveWahaAccount ''default'' (config_of (base_config\<lparr>wc_hmacKey := Some ''k''\<rparr>)) None)
     (post_request echo_body [(''x-webhook-hmac'', HStr ''deadbeef'')])
   = ([ErrorLogWebhook, Respond (json_response 500 [(''error'', ''Internal server error'')])],
      Returned)"
proof -
  let ?acct = "resolveWahaAccount ''default'' (config_of (base_config\<lparr>wc_hmacKey := Some ''k''\<rparr>)) None"
  let ?req = "post_request echo_body [(''x-webhook-hmac'', HStr ''deadbeef'')]"
  have 1: "req_method ?req = ''POST''" by (simp add: post_request_def)
  have 2: "req_body ?req = Some echo_body" by (simp add: post_request_def)
  have 3: "ra_hmacKey ?acct = Some ''k''" by code_simp
  have 4: "''k'' \<noteq> []" by simp
  have 5: "req_headers ?req ''x-webhook-hmac'' = Some (HStr ''deadbeef'')"
    by (simp add: post_request_def)
  have 6: "''deadbeef'' \<noteq> []" by simp
  have 7: "req_headers ?req ''x-webhook-hmac-algorithm'' = None"
    by (simp add: post_request_def)
  have 8: "fixture_digest ''sha512'' ''k'' echo_body = Some (replicate 128 (CHR ''0''))"
    by (simp add: fixture_digest_def)
  have 9: "length (utf8_bytes ''deadbeef'') \<noteq> length (utf8_bytes (replicate 128 (CHR ''0'')))"
    by code_simp
  show ?thesis
    using 1 2 3 4 5 6 7 8 9 by (rule signature_length_mismatch_500)
qed

lemma post_body_passed:
  assumes "req_body req = Some rawBody"
    and "check_hmac hmac_hex account req rawBody = HmacPassed"
    and "json_parse rawBody = Some payload"
  shows "post_body hmac_hex json_parse onMessage onReaction onSessionStatus account req =
           (ParseJson rawBody # Respond ok_response
              # fst (dispatch_event onMessage onReaction onSessionStatus payload),
            snd (dispatch_event onMessage onReaction onSessionStatus payload))"
  by (simp add: post_body_def assms split_beta)

text \<open>
  C2. For a POST request whose HMAC check passes (or is not required) and whose body
  parses, the effects of the handler are: the parse, the 200 response, and only then the
  effects of the dispatch by event kind, for every message handler, also one whose promise
  never settles.
\<close>

theorem response_before_dispatch:
  assumes "req_method req = ''POST''" "req_body req = Some rawBody"
    and "check_hmac hmac_hex account req rawBody = HmacPassed"
    and "json_parse rawBody = Some payload"
  shows "webhook_handler hmac_hex json_parse onMessage onReaction onSessionStatus account req =
           (ParseJson rawBody # Respond ok_response
              # fst (dispatch_event onMessage onReaction onSessionStatus payload)
              @ (case snd (dispatch_event onMessage onReaction onSessionStatus payload) of
                   Threw e \<Rightarrow> [ErrorLogWebhook]
                 | _ \<Rightarrow> []),
            case snd (dispatch_event onMessage onReaction onSessionStatus payload) of
              Threw e \<Rightarrow> Returned
            | c \<Rightarrow> c)"
proof -
  have p: "post_body hmac_hex json_parse onMessage onReaction onSessionStatus account req =
           (ParseJson rawBody # Respond ok_response
              # fst (dispatch_event onMessage onReaction onSessionStatus payload),
            snd (dispatch_event onMessage onReaction onSessionStatus payload))"
    using assms(2-4) by (rule post_body_passed)
  show ?thesis
    unfolding webhook_handler_def p
    using assms(1)
    by (cases "snd (dispatch_event onMessage onReaction onSessionStatus payload)")
       (simp_all add: headersSent_def)
qed

theorem response_before_dispatch_witness:
  "webhook_handler fixture_digest fixture_parse never_settles None None
     (resolveWahaAccount ''default'' (config_of base_config) None)
     (post_request inbound_body [])
   = ([ParseJson inbound_body, Respond ok_response,
       LogMsg (LogReceived (Some (JStr ''message'')) (Some (JStr ''default''))),
       CallOnMessage (JObj [(''from'', JStr ''15551234567@c.us''), (''fromMe'', JBool False)])
         (Some (JStr ''default''))],
      Hung)"
proof -
  let ?acct = "resolveWahaAccount ''default'' (config_of base_config) None"
  let ?req = "post_request inbound_body []"
  have 1: "req_method ?req = ''POST''" by (simp add: post_request_def)
  have 2: "req_body ?req = Some inbound_body" by (simp add: post_request_def)
  have 3: "check_hmac fixture_digest ?acct ?req inbound_body = HmacPassed" by code_simp
  have 4: "fixture_parse inbound_body = Some (message_event False)" by code_simp
  have 5: "dispatch_event never_settles None None (message_event False) =
     ([LogMsg (LogReceived (Some (JStr ''message'')) (Some (JStr ''default''))),
       CallOnMessage (JObj [(''from'', JStr ''15551234567@c.us''), (''fromMe'', JBool False)])
         (Some (JStr ''default''))], Hung)"
    by code_simp
  show ?thesis
    using response_before_dispatch [where hmac_hex = fixture_digest and json_parse = fixture_parse
        and onMessage = never_settles and onReaction = None and onSessionStatus = None
        and payload = "message_event False", OF 1 2 3 4]
    by (simp add: 5)
qed

lemma dispatch_event_self_echo:
  assumes "get_prop payload ''event'' = Some (JStr ''message'')
           \<or> get_prop payload ''event'' = Some (JStr ''message.any'')"
    and "get_prop payload ''payload'' = Some msgPayload"
    and "get_prop msgPayload ''fromMe'' = Some (JBool True)"
  shows "dispatch_event onMessage onReaction onSessionStatus payload =
           (if template_throws (get_prop payload ''session'') then ([], Threw TypeError)
            else ([LogMsg (LogReceived (get_prop payload ''event'')
                            (get_prop payload ''session''))], Returned))"
proof -
  have a: "payload \<noteq> JNull" using assms(2) by auto
  have b: "msgPayload \<noteq> JNull" using assms(3) by auto
  have c: "\<not> template_throws (get_prop payload ''event'')"
    using assms(1) by (auto simp: template_throws_def)
  show ?thesis
    using assms a b c by (auto simp: dispatch_event_def Let_def)
qed

text \<open>
  C7. A request whose body parses to a \<open>message\<close> or \<open>message.any\<close> event with
  \<open>payload.fromMe\<close> equal to \<open>true\<close> never invokes the message handler, for every account
  (so for every DM and group policy), method and HMAC outcome. Access control and reply
  dispatch run only inside that handler.
\<close>

theorem self_echo_never_dispatched:
  assumes "req_body req = Some rawBody" "json_parse rawBody = Some payload"
    and "get_prop payload ''event'' = Some (JStr ''message'')
         \<or> get_prop payload ''event'' = Some (JStr ''message.any'')"
    and "get_prop payload ''payload'' = Some msgPayload"
    and "get_prop msgPayload ''fromMe'' = Some (JBool True)"
  shows "\<not> list_ex is_on_message
            (fst (webhook_handler hmac_hex json_parse onMessage onReaction onSessionStatus account req))"
proof -
  have d: "dispatch_event onMessage onReaction onSessionStatus payload =
           (if template_throws (get_prop payload ''session'') then ([], Threw TypeError)
            else ([LogMsg (LogReceived (get_prop payload ''event'')
                            (get_prop payload ''session''))], Returned))"
    using assms(3-5) by (rule dispatch_event_self_echo)
  show ?thesis
    by (cases "check_hmac hmac_hex account req rawBody")
       (simp_all add: webhook_handler_def post_body_def assms(1,2) d headersSent_def)
qed

theorem self_echo_never_dispatched_witness:
  "\<not> list_ex is_on_message
       (fst (webhook_handler fixture_digest fixture_parse never_settles None None
               (resolveWahaAccount ''default'' (config_of base_config) None)
               (post_request echo_body [])))"
proof -
  have 1: "req_body (post_request echo_body []) = Some echo_body" by (simp add: post_request_def)
  have 2: "fixture_parse echo_body = Some (message_event True)" by (simp add: fixture_parse_def)
  have 3: "get_prop (message_event True) ''event'' = Some (JStr ''message'')
           \<or> get_prop (message_event True) ''event'' = Some (JStr ''message.any'')"
    by (simp add: message_event_def)
  have 4: "get_prop (message_event True) ''payload'' =
             Some (JObj [(''from'', JStr ''15551234567@c.us''), (''fromMe'', JBool True)])"
    by (simp add: message_event_def)
  have 5: "get_prop (JObj [(''from'', JStr ''15551234567@c.us''), (''fromMe'', JBool True)])
             ''fromMe'' = Some (JBool True)"
    by simp
  show ?thesis
    using 1 2 3 4 5 by (rule self_echo_never_dispatched)
qed

section \<open>Properties of access control\<close>

lemma access_dm_cases:
  "checkInboundAccessControl num_str store senderId senderE164 False account =
     (if dm_policy_of account = DmDisabled then \<lparr>allowed = False, reason = Some ''DMs disabled''\<rparr>
      else if dm_policy_of account = DmOpen then \<lparr>allowed = True, reason = None\<rparr>
      else if senderE164 \<in> dm_allow_set num_str store account
              \<or> senderId \<in> dm_allow_set num_str store account
        then \<lparr>allowed = True, reason = None\<rparr>
      else if dm_policy_of account = DmPairing
        then \<lparr>allowed = False, reason = Some ''pairing required''\<rparr>
      else \<lparr>allowed = False, reason = Some ''sender not in allowlist''\<rparr>)"
  unfolding dm_policy_of_def dm_allow_set_def checkInboundAccessControl_def Let_def
  by simp

lemma handleMessage_rejected:
  assumes "\<not> isGroupChatId (mp_from payload)"
    and "r = checkInboundAccessControl num_str store (sender_of payload)
               (chatIdToE164 (sender_of payload)) False account"
    and "\<not> allowed r"
  shows "handleMessage num_str store buildPairingReply client dispatch account payload session =
     (if reason r = Some ''pairing required'' then
        ([ResolveAgentRoute, RecordInboundAt,
          LogDropping (chatIdToE164 (sender_of payload)) (reason r),
          BuildPairingReply (chatIdToE164 (sender_of payload))
            (or_opt (mp_notifyName payload) (mp_participant payload)),
          UpsertPairingRequest (chatIdToE164 (sender_of payload))
            (or_opt (mp_notifyName payload) (mp_participant payload)),
          ClientCall (SendText (ra_session account) (normalizeWahaTarget (mp_from payload))
            (buildPairingReply (chatIdToE164 (sender_of payload))
               (or_opt (mp_notifyName payload) (mp_participant payload))) None)],
         case client (SendText (ra_session account) (normalizeWahaTarget (mp_from payload))
            (buildPairingReply (chatIdToE164 (sender_of payload))
               (or_opt (mp_notifyName payload) (mp_participant payload))) None) of
           SendFailed \<Rightarrow> Rejected | Sent _ \<Rightarrow> Fulfilled)
      else
        ([ResolveAgentRoute, RecordInboundAt,
          LogDropping (chatIdToE164 (sender_of payload)) (reason r)], Fulfilled))"
  using assms
  unfolding handleMessage_def buildMsgContext_def sender_of_def Let_def
  by simp

text \<open>
  C3. For a direct message and a resolved account: policy \<open>disabled\<close> rejects and \<open>open\<close>
  accepts; \<open>allowlist\<close> and \<open>pairing\<close> accept exactly when the sender, as chat id or in
  E.164 form, is in the normalized union of the configured \<open>allowFrom\<close> and the pairing
  store; a rejection has the reason \<open>"pairing required"\<close> exactly under policy \<open>pairing\<close>,
  and then the message handler builds the pairing reply, records the pairing request and
  sends the reply, while any other rejection only logs the drop.
\<close>

theorem dm_access_tri_state:
  assumes "\<not> isGroupChatId (mp_from payload)"
    and "sender = sender_of payload"
    and "r = checkInboundAccessControl num_str store sender (chatIdToE164 sender) False account"
    and "h = handleMessage num_str store buildPairingReply client dispatch account payload session"
    and "name = or_opt (mp_notifyName payload) (mp_participant payload)"
  shows "(dm_policy_of account = DmDisabled \<longrightarrow> \<not> allowed r)
       \<and> (dm_policy_of account = DmOpen \<longrightarrow> allowed r)
       \<and> (dm_policy_of account = DmAllowlist \<or> dm_policy_of account = DmPairing \<longrightarrow>
            (allowed r \<longleftrightarrow> sender \<in> dm_allow_set num_str store account
                          \<or> chatIdToE164 sender \<in> dm_allow_set num_str store account))
       \<and> (\<not> allowed r \<longrightarrow>
            (reason r = Some ''pairing required'' \<longleftrightarrow> dm_policy_of account = DmPairing))
       \<and> (\<not> allowed r \<and> dm_policy_of account \<noteq> DmPairing \<longrightarrow>
            h = ([ResolveAgentRoute, RecordInboundAt, LogDropping (chatIdToE164 sender) (reason r)],
                 Fulfilled))
       \<and> (\<not> allowed r \<and> dm_policy_of account = DmPairing \<longrightarrow>
            fst h = [ResolveAgentRoute, RecordInboundAt,
                     LogDropping (chatIdToE164 sender) (Some ''pairing required''),
                     BuildPairingReply (chatIdToE164 sender) name,
                     UpsertPairingRequest (chatIdToE164 sender) name,
                     ClientCall (SendText (ra_session account) (normalizeWahaTarget (mp_from payload))
                                   (buildPairingReply (chatIdToE164 sender) name) None)])"
proof -
  note c = access_dm_cases [of num_str store sender "chatIdToE164 sender" account, folded assms(3)]
  have p1: "dm_policy_of account = DmDisabled \<longrightarrow> \<not> allowed r"
    by (simp add: c)
  have p2: "dm_policy_of account = DmOpen \<longrightarrow> allowed r"
    by (simp add: c)
  have p3: "dm_policy_of account = DmAllowlist \<or> dm_policy_of account = DmPairing \<longrightarrow>
            (allowed r \<longleftrightarrow> sender \<in> dm_allow_set num_str store account
                          \<or> chatIdToE164 sender \<in> dm_allow_set num_str store account)"
    by (auto simp: c)
  have p4: "\<not> allowed r \<longrightarrow>
            (reason r = Some ''pairing required'' \<longleftrightarrow> dm_policy_of account = DmPairing)"
    by (simp add: c)
  have r': "r = checkInboundAccessControl num_str store (sender_of payload)
                 (chatIdToE164 (sender_of payload)) False account"
    using assms(2,3) by simp
  have hm: "h =
     (if reason r = Some ''pairing required'' then
        ([ResolveAgentRoute, RecordInboundAt,
          LogDropping (chatIdToE164 sender) (reason r),
          BuildPairingReply (chatIdToE164 sender) name,
          UpsertPairingRequest (chatIdToE164 sender) name,
          ClientCall (SendText (ra_session account) (normalizeWahaTarget (mp_from payload))
            (buildPairingReply (chatIdToE164 sender) name) None)],
         case client (SendText (ra_session account) (normalizeWahaTarget (mp_from payload))
            (buildPairingReply (chatIdToE164 sender) name) None) of
           SendFailed \<Rightarrow> Rejected | Sent _ \<Rightarrow> Fulfilled)
      else
        ([ResolveAgentRoute, RecordInboundAt,
          LogDropping (chatIdToE164 sender) (reason r)], Fulfilled))"
    if na: "\<not> allowed r"
    using handleMessage_rejected [OF assms(1) r' na, of buildPairingReply client dispatch session]
    by (simp add: assms(2,4,5))
  have p5: "\<not> allowed r \<and> dm_policy_of account \<noteq> DmPairing \<longrightarrow>
            h = ([ResolveAgentRoute, RecordInboundAt, LogDropping (chatIdToE164 sender) (reason r)],
                 Fulfilled)"
    using hm p4 by simp
  have p6: "\<not> allowed r \<and> dm_policy_of account = DmPairing \<longrightarrow>
            fst h = [ResolveAgentRoute, RecordInboundAt,
                     LogDropping (chatIdToE164 sender) (Some ''pairing required''),
                     BuildPairingReply (chatIdToE164 sender) name,
                     UpsertPairingRequest (chatIdToE164 sender) name,
                     ClientCall (SendText (ra_session account) (normalizeWahaTarget (mp_from payload))
                                   (buildPairingReply (chatIdToE164 sender) name) None)]"
    using hm p4 by simp
  from p1 p2 p3 p4 p5 p6 show ?thesis by (intro conjI)
qed

theorem dm_access_tri_state_witness:
  "reason (checkInboundAccessControl print_nat None ''15559999999@c.us''
             (chatIdToE164 ''15559999999@c.us'') False
             (resolveWahaAccount ''default''
                (config_of (base_config\<lparr>wc_dmPolicy := Some DmPairing,
                                         wc_allowFrom := Some [EntryStr ''+15551234567'']\<rparr>)) None))
     = Some ''pairing required''
   \<and> allowed (checkInboundAccessControl print_nat None ''15551234567@c.us''
             (chatIdToE164 ''15551234567@c.us'') False
             (resolveWahaAccount ''default''
                (config_of (base_config\<lparr>wc_dmPolicy := Some DmAllowlist,
                                         wc_allowFrom := Some [EntryStr ''+15551234567'']\<rparr>)) None))"
proof -
  let ?a = "resolveWahaAccount ''default''
                (config_of (base_config\<lparr>wc_dmPolicy := Some DmPairing,
                                         wc_allowFrom := Some [EntryStr ''+15551234567'']\<rparr>)) None"
  let ?b = "resolveWahaAccount ''default''
                (config_of (base_config\<lparr>wc_dmPolicy := Some DmAllowlist,
                                         wc_allowFrom := Some [EntryStr ''+15551234567'']\<rparr>)) None"
  let ?p = "direct_message ''15559999999@c.us''"
  let ?q = "direct_message ''15551234567@c.us''"
  have d1: "\<not> isGroupChatId (mp_from ?p)" by code_simp
  have d2: "\<not> isGroupChatId (mp_from ?q)" by code_simp
  have s1: "''15559999999@c.us'' = sender_of ?p" by code_simp
  have s2: "''15551234567@c.us'' = sender_of ?q" by code_simp
  have pa: "dm_policy_of ?a = DmPairing" by code_simp
  have pb: "dm_policy_of ?b = DmAllowlist" by code_simp
  have na: "\<not> allowed (checkInboundAccessControl print_nat None ''15559999999@c.us''
             (chatIdToE164 ''15559999999@c.us'') False ?a)" by code_simp
  have inb: "chatIdToE164 ''15551234567@c.us'' \<in> dm_allow_set print_nat None ?b" by code_simp
  have x: "reason (checkInboundAccessControl print_nat None ''15559999999@c.us''
             (chatIdToE164 ''15559999999@c.us'') False ?a) = Some ''pairing required''"
    using dm_access_tri_state [where num_str = print_nat and store = None and account = ?a
        and buildPairingReply = pairing_text and client = echo_client and dispatch = reply_ok
        and session = "''main''", OF d1 s1 refl refl refl] na pa
    by blast
  have y: "allowed (checkInboundAccessControl print_nat None ''15551234567@c.us''
             (chatIdToE164 ''15551234567@c.us'') False ?b)"
    using dm_access_tri_state [where num_str = print_nat and store = None and account = ?b
        and buildPairingReply = pairing_text and client = echo_client and dispatch = reply_ok
        and session = "''main''", OF d2 s2 refl refl refl] pb inb
    by blast
  from x y show ?thesis by simp
qed

section \<open>Properties of outbound dispatch\<close>

text \<open>
  C10. On a configured account, \<open>sendPayload\<close> with a text that is empty or white space
  only, no media URL and no location makes no client call and returns the message id
  \<open>"sent"\<close>.
\<close>

theorem sendPayload_nothing_to_send:
  assumes "isWahaAccountConfigured (resolveWahaAccount D cfg accountId)"
    and "js_trim (or_else (rp_text payload) []) = []"
    and "rp_mediaUrls payload = None \<or> rp_mediaUrls payload = Some []"
    and "rp_mediaUrl payload = None \<or> rp_mediaUrl payload = Some []"
    and "rp_location payload = None"
  shows "sendPayload D chunkMarkdownText client to payload accountId cfg =
           ([], Inr \<lparr>d_channel = ''waha'', d_messageId = ''sent'',
                     d_chatId = normalizeWahaTarget to\<rparr>)"
proof -
  have m: "(case rp_mediaUrls payload of
              Some urls \<Rightarrow> urls
            | None \<Rightarrow> (case rp_mediaUrl payload of
                         None \<Rightarrow> []
                       | Some u \<Rightarrow> if u \<noteq> [] then [u] else [])) = []"
    using assms(3,4) by auto
  show ?thesis
    unfolding sendPayload_def Let_def m
    using assms(1,2,5) by (simp add: trimmed_truthy_def)
qed

theorem sendPayload_nothing_to_send_witness:
  "sendPayload ''default'' one_chunk offline_client ''+15551234567'' blank_payload None
     (config_of base_config)
   = ([], Inr \<lparr>d_channel = ''waha'', d_messageId = ''sent'', d_chatId = ''15551234567@c.us''\<rparr>)"
proof -
  have a: "isWahaAccountConfigured (resolveWahaAccount ''default'' (config_of base_config) None)"
    by code_simp
  have b: "js_trim (or_else (rp_text blank_payload) []) = []"
    by code_simp
  have c: "normalizeWahaTarget ''+15551234567'' = ''15551234567@c.us''"
    by code_simp
  show ?thesis
    using sendPayload_nothing_to_send [OF a b, of one_chunk offline_client "''+15551234567''"]
    by (simp add: blank_payload_def c)
qed

text \<open>
  On an account that is not configured the same call throws before anything else.
\<close>

theorem sendPayload_unconfigured_throws:
  "sendPayload ''default'' one_chunk echo_client ''+15551234567'' blank_payload None
     \<lparr>cfg_channels = None\<rparr> = ([], Inl WahaNotConfigured)"
  by code_simp

end
